theory Spec2Isabelle
  imports Complex_Main "HOL-Library.AList"
begin

section \<open>Safety primitives of the robot (primitives.py)\<close>

text \<open>
  The three loop primitives \<open>LimitOverLoad\<close>, \<open>LimitSpeed\<close> and \<open>LimitTemperature\<close>
  read the motors of a robot at a fixed frequency and set every motor compliant as soon
  as one reading is over its limit. Python numbers are modelled as real numbers, so
  \<open>abs\<close>, \<open>-\<close>, \<open>*\<close>, \<open>/\<close> and the comparisons are the exact ones.
\<close>

subsection \<open>Data\<close>

text \<open>The attributes of a motor object that the primitives read or write.\<close>

record motor =
  name :: string
  model :: string
  present_load :: real
  present_position :: real
  present_temperature :: real
  compliant :: bool

text \<open>
  What a primitive does to the outside: a line printed on the console (its label and the
  dictionary that is formatted into it), and the assignment \<open>m.compliant = v\<close> to the
  motor named in it.
\<close>

datatype event =
  Print string "(string \<times> real) list"
| SetCompliant string bool

text \<open>The exceptions that the bodies of the primitives can raise.\<close>

datatype error =
  ValueError string
| KeyError string
| IndexError
| ZeroDivisionError

text \<open>
  The state: the motors of the robot (\<open>self._robot.motors\<close>, in iteration order), the
  trace of events so far, and the two fields of the \<open>LimitSpeed\<close> instance, \<open>_freq\<close>
  and \<open>prev_position\<close> (a dictionary from motor names to one-element lists).
\<close>

record state =
  motors :: "motor list"
  trace :: "event list"
  freq :: real
  prev_position :: "string \<rightharpoonup> real list"

subsection \<open>Constants\<close>

definition LOAD_LIMIT :: real where
  "LOAD_LIMIT = 60"

definition SPEED_LIMIT :: real where
  "SPEED_LIMIT = 4 * pi"

definition TEMPERATURE_LIMIT :: real where
  "TEMPERATURE_LIMIT = 60"

text \<open>\<open>math.radians\<close>.\<close>

definition radians :: "real \<Rightarrow> real" where
  "radians x = x * (pi / 180)"

subsection \<open>Releasing the robot\<close>

text \<open>
  One iteration of \<open>for m in self._robot.motors: m.compliant = True\<close>, on the motor at
  index \<open>i\<close>, and the whole loop.
\<close>

definition set_compliant :: "nat \<Rightarrow> state \<Rightarrow> state" where
  "set_compliant i s =
     s\<lparr>motors := (motors s)[i := (motors s ! i)\<lparr>compliant := True\<rparr>],
       trace := trace s @ [SetCompliant (name (motors s ! i)) True]\<rparr>"

definition release_all :: "state \<Rightarrow> state" where
  "release_all s = fold set_compliant [0..<length (motors s)] s"

subsection \<open>LimitOverLoad\<close>

text \<open>
  The dictionary \<open>overloaded_motors\<close> after the first loop of \<open>update\<close>. A Python
  dictionary keeps insertion order and an assignment to a key it has replaces the value
  in place, which is \<^const>\<open>AList.update\<close> on an association list.
\<close>

definition overloaded_motors :: "motor list \<Rightarrow> (string \<times> real) list" where
  "overloaded_motors ms =
     fold (\<lambda>m d. if \<bar>present_load m\<bar> > LOAD_LIMIT \<and> \<not> compliant m
                  then AList.update (name m) (present_load m) d else d) ms []"

definition LimitOverLoad_update :: "state \<Rightarrow> state" where
  "LimitOverLoad_update s =
     (let d = overloaded_motors (motors s)
      in if d \<noteq> []
         then release_all (s\<lparr>trace := trace s @ [Print ''overloaded motors: '' d]\<rparr>)
         else s)"

subsection \<open>LimitTemperature\<close>

definition overheating_motors :: "motor list \<Rightarrow> (string \<times> real) list" where
  "overheating_motors ms =
     fold (\<lambda>m d. if present_temperature m > TEMPERATURE_LIMIT
                  then AList.update (name m) (present_temperature m) d else d) ms []"

definition LimitTemperature_update :: "state \<Rightarrow> state" where
  "LimitTemperature_update s =
     (let d = overheating_motors (motors s)
      in if d \<noteq> []
         then release_all (s\<lparr>trace := trace s @ [Print ''overheated motors: '' d]\<rparr>)
         else s)"

subsection \<open>LimitSpeed\<close>

text \<open>\<open>setup\<close>: every motor's position is stored under its name, as a one-element list.\<close>

definition LimitSpeed_setup :: "state \<Rightarrow> state" where
  "LimitSpeed_setup s =
     s\<lparr>prev_position :=
         fold (\<lambda>m p. p(name m \<mapsto> [present_position m])) (motors s) (prev_position s)\<rparr>"

text \<open>The \<open>if\<close>/\<open>elif\<close>/\<open>else\<close> on the model of a motor.\<close>

definition resolution :: "string \<Rightarrow> error + real" where
  "resolution mdl =
     (if mdl \<in> set [''MX-28'', ''MX-64''] then Inr 0.088
      else if mdl \<in> set [''AX-12''] then Inr 0.29
      else Inl (ValueError ''unknown motor model.''))"

text \<open>
  The speed that the body of the loop computes for one motor. The expression is evaluated
  left to right: the lookup \<open>self.prev_position[m.name]\<close> raises \<open>KeyError\<close> on a
  missing name, \<open>[0]\<close> raises \<open>IndexError\<close> on an empty list, and the division raises
  \<open>ZeroDivisionError\<close> when \<open>self._freq\<close> is zero.
\<close>

definition motor_speed :: "real \<Rightarrow> (string \<rightharpoonup> real list) \<Rightarrow> motor \<Rightarrow> error + real" where
  "motor_speed f prev m =
     (case resolution (model m) of
        Inl e \<Rightarrow> Inl e
      | Inr res \<Rightarrow>
          (case prev (name m) of
             None \<Rightarrow> Inl (KeyError (name m))
           | Some [] \<Rightarrow> Inl IndexError
           | Some (p # _) \<Rightarrow>
               if f = 0 then Inl ZeroDivisionError
               else Inr (radians ((present_position m - p) * res / f))))"

text \<open>
  The first loop of \<open>update\<close>, from the dictionary \<open>d\<close> built so far: an exception
  leaves the loop and the dictionary is lost.
\<close>

fun speed_loop ::
  "real \<Rightarrow> (string \<rightharpoonup> real list) \<Rightarrow> motor list \<Rightarrow> (string \<times> real) list
     \<Rightarrow> error + (string \<times> real) list" where
  "speed_loop f prev [] d = Inr d"
| "speed_loop f prev (m # ms) d =
     (case motor_speed f prev m of
        Inl e \<Rightarrow> Inl e
      | Inr speed \<Rightarrow>
          speed_loop f prev ms
            (if \<bar>speed\<bar> > SPEED_LIMIT then AList.update (name m) speed d else d))"

definition overspeeding_motors :: "state \<Rightarrow> error + (string \<times> real) list" where
  "overspeeding_motors s = speed_loop (freq s) (prev_position s) (motors s) []"

text \<open>
  \<open>update\<close>: the exception, if one was raised, and the state the call leaves behind.
\<close>

definition LimitSpeed_update :: "state \<Rightarrow> (error + unit) \<times> state" where
  "LimitSpeed_update s =
     (case overspeeding_motors s of
        Inl e \<Rightarrow> (Inl e, s)
      | Inr d \<Rightarrow>
          if d \<noteq> []
          then (Inr (), release_all (s\<lparr>trace := trace s @ [Print ''overspeeding motors: '' d]\<rparr>))
          else (Inr (), s))"

subsection \<open>Example robots\<close>

text \<open>
  Four motors: \<open>m1\<close> is over the load and the temperature limit, \<open>m2\<close> sits exactly on
  both limits, \<open>m3\<close> has a model that \<open>LimitSpeed\<close> does not know, and \<open>m4\<close> is
  compliant under a heavy load. \<open>m9\<close> is a second motor of an unknown model.
\<close>

definition ex_m1 :: motor where
  "ex_m1 = \<lparr>name = ''m1'', model = ''MX-28'', present_load = 75, present_position = 170,
            present_temperature = 70, compliant = False\<rparr>"

definition ex_m2 :: motor where
  "ex_m2 = \<lparr>name = ''m2'', model = ''MX-28'', present_load = 60, present_position = 10,
            present_temperature = 60, compliant = False\<rparr>"

definition ex_m3 :: motor where
  "ex_m3 = \<lparr>name = ''m3'', model = ''XYZ-99'', present_load = - 75, present_position = 0,
            present_temperature = 20, compliant = False\<rparr>"

definition ex_m4 :: motor where
  "ex_m4 = \<lparr>name = ''m4'', model = ''AX-12'', present_load = - 80, present_position = 0,
            present_temperature = - 70, compliant = True\<rparr>"

definition ex_m9 :: motor where
  "ex_m9 = \<lparr>name = ''m9'', model = ''RX-64'', present_load = 0, present_position = 0,
            present_temperature = 20, compliant = False\<rparr>"

text \<open>
  A robot in which \<open>m1\<close> has moved by 170 degrees since \<open>setup\<close>, watched by a loop of
  one tick in a hundred seconds, and a robot at rest watched at 50 Hz.
\<close>

definition s_trip :: state where
  "s_trip = \<lparr>motors = [ex_m1, ex_m4], trace = [], freq = 1 / 100,
             prev_position = [''m1'' \<mapsto> [0], ''m4'' \<mapsto> [0]]\<rparr>"

definition s_calm :: state where
  "s_calm = \<lparr>motors = [ex_m2, ex_m4], trace = [], freq = 50,
             prev_position = [''m2'' \<mapsto> [10], ''m4'' \<mapsto> [0]]\<rparr>"

text \<open>
  The \<open>LimitSpeed\<close> instance as \<open>__init__\<close> leaves it, on a robot of the one motor
  \<open>m2\<close>; the same robot after \<open>setup\<close>, once \<open>m2\<close> has moved from 10 to 20 degrees;
  and, for a loop of one tick in a hundred seconds, once \<open>m2\<close> has moved to 170 degrees.
\<close>

definition s_fresh :: state where
  "s_fresh = \<lparr>motors = [ex_m2], trace = [], freq = 50, prev_position = Map.empty\<rparr>"

definition s_moved :: state where
  "s_moved = (LimitSpeed_setup s_fresh)\<lparr>motors := [ex_m2\<lparr>present_position := 20\<rparr>]\<rparr>"

definition s_jump :: state where
  "s_jump = (LimitSpeed_setup (s_fresh\<lparr>freq := 1 / 100\<rparr>))\<lparr>motors := [ex_m2\<lparr>present_position := 170\<rparr>]\<rparr>"

text \<open>A loop at 50 Hz on \<open>m1\<close>, which has moved by 170 degrees since \<open>setup\<close>.\<close>

definition s_fifty :: state where
  "s_fifty = \<lparr>motors = [ex_m1], trace = [], freq = 50, prev_position = [''m1'' \<mapsto> [0]]\<rparr>"

text \<open>Robots with a motor of an unknown model, alone, before and after other motors.\<close>

definition s_m3 :: state where
  "s_m3 = \<lparr>motors = [ex_m3], trace = [], freq = 50, prev_position = [''m3'' \<mapsto> [0]]\<rparr>"

definition s_m9 :: state where
  "s_m9 = \<lparr>motors = [ex_m9], trace = [], freq = 50, prev_position = [''m9'' \<mapsto> [0]]\<rparr>"

definition s_abort :: state where
  "s_abort = \<lparr>motors = [ex_m4, ex_m3, ex_m1], trace = [], freq = 1 / 100,
              prev_position = [''m1'' \<mapsto> [0], ''m3'' \<mapsto> [0], ''m4'' \<mapsto> [0]]\<rparr>"

definition s_late :: state where
  "s_late = \<lparr>motors = [ex_m1, ex_m3], trace = [], freq = 1 / 100,
             prev_position = [''m1'' \<mapsto> [0], ''m3'' \<mapsto> [0]]\<rparr>"

section \<open>Auxiliary facts\<close>

subsection \<open>The release loop\<close>

lemma fold_set_compliant:
  "n \<le> length (motors s) \<Longrightarrow>
   fold set_compliant [0..<n] s =
     s\<lparr>motors := map (\<lambda>m. m\<lparr>compliant := True\<rparr>) (take n (motors s)) @ drop n (motors s),
       trace := trace s @ map (\<lambda>m. SetCompliant (name m) True) (take n (motors s))\<rparr>"
proof (induction n)
  case 0
  show ?case by simp
next
  case (Suc n)
  then have n: "n < length (motors s)" by simp
  let ?t = "fold set_compliant [0..<n] s"
  have t: "?t = s\<lparr>motors := map (\<lambda>m. m\<lparr>compliant := True\<rparr>) (take n (motors s)) @ drop n (motors s),
       trace := trace s @ map (\<lambda>m. SetCompliant (name m) True) (take n (motors s))\<rparr>"
    using Suc by simp
  have nth: "motors ?t ! n = motors s ! n"
    using n by (simp add: t nth_append)
  have upd: "(motors ?t)[n := (motors s ! n)\<lparr>compliant := True\<rparr>] =
      map (\<lambda>m. m\<lparr>compliant := True\<rparr>) (take (Suc n) (motors s)) @ drop (Suc n) (motors s)"
    using n by (simp add: t list_update_append take_Suc_conv_app_nth flip: Cons_nth_drop_Suc)
  have "fold set_compliant [0..<Suc n] s = set_compliant n ?t" by simp
  also have "\<dots> = ?t\<lparr>motors := (motors ?t)[n := (motors s ! n)\<lparr>compliant := True\<rparr>],
       trace := trace ?t @ [SetCompliant (name (motors s ! n)) True]\<rparr>"
    by (simp only: set_compliant_def nth)
  also have "\<dots> = s\<lparr>motors := map (\<lambda>m. m\<lparr>compliant := True\<rparr>) (take (Suc n) (motors s)) @ drop (Suc n) (motors s),
       trace := trace s @ map (\<lambda>m. SetCompliant (name m) True) (take (Suc n) (motors s))\<rparr>"
    using n by (simp only: upd) (simp add: t take_Suc_conv_app_nth)
  finally show ?case .
qed

lemma release_all_eq:
  "release_all s =
     s\<lparr>motors := map (\<lambda>m. m\<lparr>compliant := True\<rparr>) (motors s),
       trace := trace s @ map (\<lambda>m. SetCompliant (name m) True) (motors s)\<rparr>"
  by (simp add: release_all_def fold_set_compliant)

lemma release_all_frame:
  "map (\<lambda>m. m\<lparr>compliant := c\<rparr>) (motors (release_all s)) = map (\<lambda>m. m\<lparr>compliant := c\<rparr>) (motors s)"
  "prev_position (release_all s) = prev_position s"
  "freq (release_all s) = freq s"
  by (simp_all add: release_all_eq)

subsection \<open>The verdict dictionaries\<close>

lemma map_of_fold_other:
  "k \<notin> name ` set ms \<Longrightarrow>
   map_of (fold (\<lambda>m d. if P m then AList.update (name m) (v m) d else d) ms d) k = map_of d k"
  by (induction ms arbitrary: d) (auto simp: update_conv')

lemma map_of_fold_member:
  "distinct (map name ms) \<Longrightarrow> m \<in> set ms \<Longrightarrow>
   map_of (fold (\<lambda>m d. if P m then AList.update (name m) (v m) d else d) ms d) (name m) =
     (if P m then Some (v m) else map_of d (name m))"
proof (induction ms arbitrary: d)
  case Nil
  then show ?case by simp
next
  case (Cons a ms)
  show ?case
  proof (cases "m = a")
    case True
    then have "name m \<notin> name ` set ms" using Cons.prems by auto
    then show ?thesis using True by (simp add: map_of_fold_other update_conv')
  next
    case False
    then have "m \<in> set ms" using Cons.prems by simp
    moreover have "name a \<notin> name ` set ms" using Cons.prems by simp
    then have "name m \<noteq> name a" using \<open>m \<in> set ms\<close> by (metis imageI)
    ultimately show ?thesis using Cons by (simp add: update_conv')
  qed
qed

subsection \<open>The speed loop\<close>

lemma resolution_unknown:
  "mdl \<notin> {''MX-28'', ''MX-64'', ''AX-12''} \<Longrightarrow> resolution mdl = Inl (ValueError ''unknown motor model.'')"
  by (simp add: resolution_def)

lemma motor_speed_unknown:
  "model m \<notin> {''MX-28'', ''MX-64'', ''AX-12''} \<Longrightarrow>
   motor_speed f prev m = Inl (ValueError ''unknown motor model.'')"
  by (simp add: motor_speed_def resolution_unknown)

lemma motor_speed_Inr_known:
  "motor_speed f prev m = Inr x \<Longrightarrow> model m \<in> {''MX-28'', ''MX-64'', ''AX-12''}"
  by (cases "model m \<in> {''MX-28'', ''MX-64'', ''AX-12''}") (simp_all add: motor_speed_unknown)

lemma speed_loop_raises:
  "m \<in> set ms \<Longrightarrow> model m \<notin> {''MX-28'', ''MX-64'', ''AX-12''} \<Longrightarrow>
   \<exists>e. speed_loop f prev ms d = Inl e"
proof (induction ms arbitrary: d)
  case Nil
  then show ?case by simp
next
  case (Cons a ms)
  show ?case
  proof (cases "motor_speed f prev a")
    case (Inl e)
    then show ?thesis by simp
  next
    case (Inr x)
    then have "a \<noteq> m" using Cons.prems(2) motor_speed_Inr_known by blast
    then have "m \<in> set ms" using Cons.prems(1) by simp
    then show ?thesis using Cons.IH Cons.prems(2) Inr by simp
  qed
qed

lemma speed_loop_reaches_unknown:
  "\<forall>a\<in>set pre. \<not> isl (motor_speed f prev a) \<Longrightarrow>
   model m \<notin> {''MX-28'', ''MX-64'', ''AX-12''} \<Longrightarrow>
   speed_loop f prev (pre @ m # post) d = Inl (ValueError ''unknown motor model.'')"
proof (induction pre arbitrary: d)
  case Nil
  then show ?case by (simp add: motor_speed_unknown)
next
  case (Cons a pre)
  then obtain x where "motor_speed f prev a = Inr x"
    by (cases "motor_speed f prev a") simp_all
  then show ?case using Cons by simp
qed

lemma LimitSpeed_update_raise:
  "overspeeding_motors s = Inl e \<Longrightarrow> LimitSpeed_update s = (Inl e, s)"
  by (simp add: LimitSpeed_update_def)

lemma speed_loop_keys:
  "speed_loop f prev ms d = Inr d' \<Longrightarrow> k \<in> fst ` set d' \<Longrightarrow>
   k \<in> fst ` set d \<or>
   (\<exists>a\<in>set ms. name a = k \<and> (\<exists>x. motor_speed f prev a = Inr x \<and> \<bar>x\<bar> > SPEED_LIMIT))"
proof (induction ms arbitrary: d)
  case Nil
  then show ?case by simp
next
  case (Cons a ms)
  from Cons.prems(1) obtain x where x: "motor_speed f prev a = Inr x"
    by (cases "motor_speed f prev a") simp_all
  let ?d = "if \<bar>x\<bar> > SPEED_LIMIT then AList.update (name a) x d else d"
  have "speed_loop f prev ms ?d = Inr d'" using Cons.prems(1) x by simp
  from Cons.IH[OF this Cons.prems(2)]
  show ?case using x by (auto simp: dom_update split: if_splits)
qed

lemma setup_other:
  "k \<notin> name ` set ms \<Longrightarrow>
   fold (\<lambda>m p. p(name m \<mapsto> [present_position m])) ms p k = p k"
  by (induction ms arbitrary: p) auto

lemma setup_member:
  "distinct (map name ms) \<Longrightarrow> m \<in> set ms \<Longrightarrow>
   fold (\<lambda>m p. p(name m \<mapsto> [present_position m])) ms p (name m) = Some [present_position m]"
proof (induction ms arbitrary: p)
  case Nil
  then show ?case by simp
next
  case (Cons a ms)
  show ?case
  proof (cases "m \<in> set ms")
    case True
    then show ?thesis using Cons by simp
  next
    case False
    then have m: "m = a" and fresh: "name a \<notin> name ` set ms" using Cons.prems by auto
    have "fold (\<lambda>m p. p(name m \<mapsto> [present_position m])) (a # ms) p (name a) =
          fold (\<lambda>m p. p(name m \<mapsto> [present_position m])) ms
            (p(name a \<mapsto> [present_position a])) (name a)"
      by (simp only: fold_simps)
    also have "\<dots> = (p(name a \<mapsto> [present_position a])) (name a)"
      by (rule setup_other) (rule fresh)
    also have "\<dots> = Some [present_position a]"
      by (simp only: fun_upd_same)
    finally show ?thesis unfolding m .
  qed
qed

lemma motor_speed_known:
  assumes "model m \<in> {''MX-28'', ''MX-64'', ''AX-12''}" and "prev (name m) = Some (p # ps)"
    and "f \<noteq> 0"
  shows "motor_speed f prev m =
           Inr (radians ((present_position m - p) * (if model m = ''AX-12'' then 0.29 else 0.088) / f))"
  using assms by (auto simp add: motor_speed_def resolution_def)

section \<open>Properties of the specification\<close>

subsection \<open>A violation releases the whole robot\<close>

text \<open>
  Claim C1. In each of the three loops, a tick whose verdict dictionary is not empty
  prints the dictionary once and then runs the release loop once: every motor of the
  robot, offending or not, is written exactly once and is compliant afterwards, and
  nothing else of a motor changes. For the speed loop the verdict is the dictionary that
  the evaluation returns.
\<close>

theorem release_on_violation:
  "(overloaded_motors (motors s) \<noteq> [] \<longrightarrow>
      LimitOverLoad_update s =
        s\<lparr>motors := map (\<lambda>m. m\<lparr>compliant := True\<rparr>) (motors s),
          trace := trace s @ Print ''overloaded motors: '' (overloaded_motors (motors s)) #
                     map (\<lambda>m. SetCompliant (name m) True) (motors s)\<rparr>) \<and>
   (overheating_motors (motors s) \<noteq> [] \<longrightarrow>
      LimitTemperature_update s =
        s\<lparr>motors := map (\<lambda>m. m\<lparr>compliant := True\<rparr>) (motors s),
          trace := trace s @ Print ''overheated motors: '' (overheating_motors (motors s)) #
                     map (\<lambda>m. SetCompliant (name m) True) (motors s)\<rparr>) \<and>
   (overspeeding_motors s = Inr d \<and> d \<noteq> [] \<longrightarrow>
      LimitSpeed_update s =
        (Inr (), s\<lparr>motors := map (\<lambda>m. m\<lparr>compliant := True\<rparr>) (motors s),
          trace := trace s @ Print ''overspeeding motors: '' d #
                     map (\<lambda>m. SetCompliant (name m) True) (motors s)\<rparr>))"
  by (simp add: LimitOverLoad_update_def LimitTemperature_update_def LimitSpeed_update_def
      release_all_eq)

theorem release_on_violation_witness:
  "overloaded_motors (motors s_trip) \<noteq> [] \<and>
   overheating_motors (motors s_trip) \<noteq> [] \<and>
   overspeeding_motors s_trip = Inr [(''m1'', radians 1496)] \<and>
   LimitOverLoad_update s_trip =
     s_trip\<lparr>motors := [ex_m1\<lparr>compliant := True\<rparr>, ex_m4],
       trace := [Print ''overloaded motors: '' [(''m1'', 75)],
                 SetCompliant ''m1'' True, SetCompliant ''m4'' True]\<rparr> \<and>
   LimitTemperature_update s_trip =
     s_trip\<lparr>motors := [ex_m1\<lparr>compliant := True\<rparr>, ex_m4],
       trace := [Print ''overheated motors: '' [(''m1'', 70)],
                 SetCompliant ''m1'' True, SetCompliant ''m4'' True]\<rparr> \<and>
   LimitSpeed_update s_trip =
     (Inr (), s_trip\<lparr>motors := [ex_m1\<lparr>compliant := True\<rparr>, ex_m4],
       trace := [Print ''overspeeding motors: '' [(''m1'', radians 1496)],
                 SetCompliant ''m1'' True, SetCompliant ''m4'' True]\<rparr>)"
proof -
  have load: "overloaded_motors [ex_m1, ex_m4] = [(''m1'', 75)]"
    by (simp add: ex_m1_def ex_m4_def overloaded_motors_def LOAD_LIMIT_def)
  have heat: "overheating_motors [ex_m1, ex_m4] = [(''m1'', 70)]"
    by (simp add: ex_m1_def ex_m4_def overheating_motors_def TEMPERATURE_LIMIT_def)
  have speed: "overspeeding_motors s_trip = Inr [(''m1'', radians 1496)]"
    by (simp add: s_trip_def ex_m1_def ex_m4_def overspeeding_motors_def motor_speed_def
        resolution_def SPEED_LIMIT_def radians_def)
  have ms: "motors s_trip = [ex_m1, ex_m4]" "trace s_trip = []"
    "name ex_m1 = ''m1''" "name ex_m4 = ''m4''" "ex_m4\<lparr>compliant := True\<rparr> = ex_m4"
    by (simp_all add: s_trip_def ex_m1_def ex_m4_def)
  show ?thesis
    using release_on_violation [of s_trip "[(''m1'', radians 1496)]"]
    by (simp add: ms load heat speed)
qed

subsection \<open>The overload verdict\<close>

text \<open>
  Claim C2. In a robot whose motor names are unique, the overload dictionary maps the
  name of a motor to its load exactly when the motor is not compliant and the absolute
  value of its load is strictly above \<open>LOAD_LIMIT\<close>; otherwise the name is not a key
  of the dictionary. So a compliant motor is never in it, and a load equal to the limit
  does not trip.
\<close>

theorem overload_verdict:
  assumes "distinct (map name ms)" and "m \<in> set ms"
  shows "map_of (overloaded_motors ms) (name m) =
           (if \<not> compliant m \<and> \<bar>present_load m\<bar> > LOAD_LIMIT
            then Some (present_load m) else None) \<and>
         (name m \<in> fst ` set (overloaded_motors ms) \<longleftrightarrow>
            \<not> compliant m \<and> \<bar>present_load m\<bar> > LOAD_LIMIT)"
proof -
  have eq: "map_of (overloaded_motors ms) (name m) =
           (if \<not> compliant m \<and> \<bar>present_load m\<bar> > LOAD_LIMIT
            then Some (present_load m) else None)"
    using map_of_fold_member [OF assms,
        of "\<lambda>m. \<bar>present_load m\<bar> > LOAD_LIMIT \<and> \<not> compliant m" present_load "[]"]
    by (auto simp add: overloaded_motors_def)
  have "name m \<in> fst ` set (overloaded_motors ms) \<longleftrightarrow>
          map_of (overloaded_motors ms) (name m) \<noteq> None"
    by (simp add: map_of_eq_None_iff)
  then show ?thesis using eq by simp
qed

theorem overload_verdict_witness:
  "distinct (map name [ex_m1, ex_m2, ex_m3, ex_m4]) \<and>
   map_of (overloaded_motors [ex_m1, ex_m2, ex_m3, ex_m4]) ''m1'' = Some 75 \<and>
   map_of (overloaded_motors [ex_m1, ex_m2, ex_m3, ex_m4]) ''m2'' = None \<and>
   map_of (overloaded_motors [ex_m1, ex_m2, ex_m3, ex_m4]) ''m3'' = Some (- 75) \<and>
   map_of (overloaded_motors [ex_m1, ex_m2, ex_m3, ex_m4]) ''m4'' = None"
proof -
  have d: "distinct (map name [ex_m1, ex_m2, ex_m3, ex_m4])"
    by (simp add: ex_m1_def ex_m2_def ex_m3_def ex_m4_def)
  show ?thesis
    using d overload_verdict [OF d, of ex_m1] overload_verdict [OF d, of ex_m2]
      overload_verdict [OF d, of ex_m3] overload_verdict [OF d, of ex_m4]
    by (simp add: ex_m1_def ex_m2_def ex_m3_def ex_m4_def LOAD_LIMIT_def)
qed

subsection \<open>The overheat verdict\<close>

text \<open>
  Claim C3. In a robot whose motor names are unique, the overheat dictionary maps the
  name of a motor to its temperature exactly when the temperature is strictly above
  \<open>TEMPERATURE_LIMIT\<close>; otherwise the name is not a key of the dictionary. The
  comparison takes no absolute value, so a temperature equal to the limit and a very low
  temperature do not trip.
\<close>

theorem overheat_verdict:
  assumes "distinct (map name ms)" and "m \<in> set ms"
  shows "map_of (overheating_motors ms) (name m) =
           (if present_temperature m > TEMPERATURE_LIMIT
            then Some (present_temperature m) else None) \<and>
         (name m \<in> fst ` set (overheating_motors ms) \<longleftrightarrow>
            present_temperature m > TEMPERATURE_LIMIT)"
proof -
  have eq: "map_of (overheating_motors ms) (name m) =
           (if present_temperature m > TEMPERATURE_LIMIT
            then Some (present_temperature m) else None)"
    using map_of_fold_member [OF assms,
        of "\<lambda>m. present_temperature m > TEMPERATURE_LIMIT" present_temperature "[]"]
    by (simp add: overheating_motors_def)
  have "name m \<in> fst ` set (overheating_motors ms) \<longleftrightarrow>
          map_of (overheating_motors ms) (name m) \<noteq> None"
    by (simp add: map_of_eq_None_iff)
  then show ?thesis using eq by simp
qed

theorem overheat_verdict_witness:
  "distinct (map name [ex_m1, ex_m2, ex_m4]) \<and>
   map_of (overheating_motors [ex_m1, ex_m2, ex_m4]) ''m1'' = Some 70 \<and>
   map_of (overheating_motors [ex_m1, ex_m2, ex_m4]) ''m2'' = None \<and>
   map_of (overheating_motors [ex_m1, ex_m2, ex_m4]) ''m4'' = None"
proof -
  have d: "distinct (map name [ex_m1, ex_m2, ex_m4])"
    by (simp add: ex_m1_def ex_m2_def ex_m4_def)
  show ?thesis
    using d overheat_verdict [OF d, of ex_m1] overheat_verdict [OF d, of ex_m2]
      overheat_verdict [OF d, of ex_m4]
    by (simp add: ex_m1_def ex_m2_def ex_m4_def TEMPERATURE_LIMIT_def)
qed

subsection \<open>A tick without violation changes nothing\<close>

text \<open>
  Claim C10. In each of the three loops, a tick whose verdict dictionary is empty returns
  the state as it was: no motor is written and nothing is printed. And whatever the
  verdict, an update leaves every attribute of every motor but \<open>compliant\<close> as it was,
  and the fields of the \<open>LimitSpeed\<close> instance too.
\<close>

theorem no_violation_no_effect:
  "(overloaded_motors (motors s) = [] \<longrightarrow> LimitOverLoad_update s = s) \<and>
   (overheating_motors (motors s) = [] \<longrightarrow> LimitTemperature_update s = s) \<and>
   (overspeeding_motors s = Inr [] \<longrightarrow> LimitSpeed_update s = (Inr (), s)) \<and>
   map (\<lambda>m. m\<lparr>compliant := c\<rparr>) (motors (LimitOverLoad_update s)) =
     map (\<lambda>m. m\<lparr>compliant := c\<rparr>) (motors s) \<and>
   map (\<lambda>m. m\<lparr>compliant := c\<rparr>) (motors (LimitTemperature_update s)) =
     map (\<lambda>m. m\<lparr>compliant := c\<rparr>) (motors s) \<and>
   map (\<lambda>m. m\<lparr>compliant := c\<rparr>) (motors (snd (LimitSpeed_update s))) =
     map (\<lambda>m. m\<lparr>compliant := c\<rparr>) (motors s) \<and>
   prev_position (LimitOverLoad_update s) = prev_position s \<and>
   prev_position (LimitTemperature_update s) = prev_position s \<and>
   prev_position (snd (LimitSpeed_update s)) = prev_position s \<and>
   freq (LimitOverLoad_update s) = freq s \<and>
   freq (LimitTemperature_update s) = freq s \<and>
   freq (snd (LimitSpeed_update s)) = freq s"
  by (simp add: LimitOverLoad_update_def LimitTemperature_update_def LimitSpeed_update_def
      release_all_frame Let_def split: sum.split)

theorem no_violation_no_effect_witness:
  "overloaded_motors (motors s_calm) = [] \<and>
   overheating_motors (motors s_calm) = [] \<and>
   overspeeding_motors s_calm = Inr [] \<and>
   LimitOverLoad_update s_calm = s_calm \<and>
   LimitTemperature_update s_calm = s_calm \<and>
   LimitSpeed_update s_calm = (Inr (), s_calm)"
proof -
  have load: "overloaded_motors (motors s_calm) = []"
    by (simp add: s_calm_def ex_m2_def ex_m4_def overloaded_motors_def LOAD_LIMIT_def)
  have heat: "overheating_motors (motors s_calm) = []"
    by (simp add: s_calm_def ex_m2_def ex_m4_def overheating_motors_def TEMPERATURE_LIMIT_def)
  have speed: "overspeeding_motors s_calm = Inr []"
    by (simp add: s_calm_def ex_m2_def ex_m4_def overspeeding_motors_def motor_speed_def
        resolution_def SPEED_LIMIT_def radians_def)
  show ?thesis
    using load heat speed no_violation_no_effect [of s_calm]
    by simp
qed

subsection \<open>The speed of a motor\<close>

text \<open>
  Claim C4. The speed that the loop computes is the displacement times the resolution
  divided by the frequency, in radians, although the line is commented as degrees per
  second and the limit as radians per second. At 50 Hz, for the motor \<open>m1\<close> of model
  MX-28 that has moved by 170 degrees, the loop computes \<open>radians (170 * 0.088 / 50)\<close>,
  which is not \<open>radians (170 * 0.088 * 50)\<close>; the latter is above \<open>SPEED_LIMIT\<close>, yet
  the update finds no violation and leaves the state as it was.
\<close>

theorem speed_divided_by_frequency:
  "motor_speed (freq s_fifty) (prev_position s_fifty) ex_m1 = Inr (radians (170 * 0.088 / 50)) \<and>
   radians (170 * 0.088 / 50) \<noteq> radians (170 * 0.088 * 50) \<and>
   \<bar>radians (170 * 0.088 * 50)\<bar> > SPEED_LIMIT \<and>
   LimitSpeed_update s_fifty = (Inr (), s_fifty)"
  by (simp add: s_fifty_def ex_m1_def LimitSpeed_update_def overspeeding_motors_def
      motor_speed_def resolution_def SPEED_LIMIT_def radians_def)

subsection \<open>The stored positions\<close>

text \<open>
  Claim C5. \<open>update\<close> never writes \<open>prev_position\<close>: after \<open>setup\<close> at 10 degrees
  and a tick at 20 degrees, the entry of \<open>m2\<close> is still the position read by \<open>setup\<close>,
  and a further tick at the same 20 degrees would again compute the speed from 10.
\<close>

theorem prev_position_not_updated:
  "prev_position (LimitSpeed_setup s_fresh) ''m2'' = Some [10] \<and>
   motors s_moved = [ex_m2\<lparr>present_position := 20\<rparr>] \<and>
   LimitSpeed_update s_moved = (Inr (), s_moved) \<and>
   prev_position (snd (LimitSpeed_update s_moved)) ''m2'' = Some [10] \<and>
   motor_speed (freq s_moved) (prev_position (snd (LimitSpeed_update s_moved)))
     (ex_m2\<lparr>present_position := 20\<rparr>) = Inr (radians (10 * 0.088 / 50))"
  by (simp add: s_moved_def s_fresh_def ex_m2_def LimitSpeed_setup_def LimitSpeed_update_def
      overspeeding_motors_def motor_speed_def resolution_def SPEED_LIMIT_def radians_def)

subsection \<open>The first tick\<close>

text \<open>
  Claim C6, amended. Let the names of the motors be unique at \<open>setup\<close> and at the first
  tick, and the frequency not zero. A motor that was present at \<open>setup\<close>, has a known
  model and is at the first tick where it was at \<open>setup\<close> has speed zero at that tick,
  and it is in no verdict that the tick returns.
\<close>

theorem first_tick_speed_zero:
  assumes "distinct (map name (motors s0))" and "m0 \<in> set (motors s0)"
    and "s1 = (LimitSpeed_setup s0)\<lparr>motors := ms\<rparr>"
    and "distinct (map name ms)" and "m \<in> set ms"
    and "name m = name m0" and "present_position m = present_position m0"
    and "model m \<in> {''MX-28'', ''MX-64'', ''AX-12''}" and "freq s0 \<noteq> 0"
  shows "motor_speed (freq s1) (prev_position s1) m = Inr 0 \<and>
         (\<forall>d. overspeeding_motors s1 = Inr d \<longrightarrow> name m \<notin> fst ` set d)"
proof -
  have prev: "prev_position s1 (name m) = Some [present_position m]"
    using setup_member [OF assms(1,2)] assms(3,6,7) by (simp add: LimitSpeed_setup_def)
  have f: "freq s1 = freq s0" "motors s1 = ms"
    using assms(3) by (simp_all add: LimitSpeed_setup_def)
  have zero: "motor_speed (freq s1) (prev_position s1) m = Inr 0"
    using motor_speed_known [where prev = "prev_position s1" and f = "freq s1", OF assms(8) prev]
      assms(9) f
    by (simp add: radians_def)
  have "name m \<notin> fst ` set d" if d: "overspeeding_motors s1 = Inr d" for d
  proof
    assume "name m \<in> fst ` set d"
    with d obtain a x where a: "a \<in> set ms" "name a = name m"
      and x: "motor_speed (freq s1) (prev_position s1) a = Inr x" "\<bar>x\<bar> > SPEED_LIMIT"
      using speed_loop_keys [of "freq s1" "prev_position s1" ms "[]" d "name m"]
      by (auto simp add: overspeeding_motors_def f)
    have "inj_on name (set ms)" using assms(4) by (simp add: distinct_map)
    then have "a = m" using a assms(5) by (auto dest: inj_onD)
    then have "x = 0" using x(1) zero by simp
    then show False using x(2) by (simp add: SPEED_LIMIT_def)
  qed
  then show ?thesis using zero by blast
qed

theorem first_tick_speed_zero_witness:
  "distinct (map name (motors s_fresh)) \<and> ex_m2 \<in> set (motors s_fresh) \<and>
   model ex_m2 \<in> {''MX-28'', ''MX-64'', ''AX-12''} \<and> freq s_fresh \<noteq> 0 \<and>
   motor_speed (freq (LimitSpeed_setup s_fresh)) (prev_position (LimitSpeed_setup s_fresh)) ex_m2 = Inr 0 \<and>
   overspeeding_motors (LimitSpeed_setup s_fresh) = Inr []"
proof -
  have h1: "distinct (map name (motors s_fresh))" and h2: "ex_m2 \<in> set (motors s_fresh)"
    and h3: "LimitSpeed_setup s_fresh = (LimitSpeed_setup s_fresh)\<lparr>motors := motors s_fresh\<rparr>"
    and h8: "model ex_m2 \<in> {''MX-28'', ''MX-64'', ''AX-12''}" and h9: "freq s_fresh \<noteq> 0"
    by (simp_all add: s_fresh_def ex_m2_def LimitSpeed_setup_def)
  have v: "overspeeding_motors (LimitSpeed_setup s_fresh) = Inr []"
    by (simp add: s_fresh_def ex_m2_def LimitSpeed_setup_def overspeeding_motors_def
        motor_speed_def resolution_def SPEED_LIMIT_def radians_def)
  show ?thesis
    using first_tick_speed_zero [OF h1 h2 h3 h1 h2 refl refl h8 h9] h1 h2 h8 h9 v
    by simp
qed

text \<open>
  Claim C6 as stated fails, since \<open>update\<close> reads the position again: when \<open>m2\<close> has
  moved from 10 to 20 degrees between \<open>setup\<close> and the first tick, its speed at that
  tick is not zero, and in a slow loop a move to 170 degrees puts it in the verdict of
  the first tick, which releases the robot.
\<close>

theorem first_tick_speed_counterexample:
  "motor_speed (freq s_moved) (prev_position s_moved) (ex_m2\<lparr>present_position := 20\<rparr>) =
     Inr (radians (10 * 0.088 / 50)) \<and>
   radians (10 * 0.088 / 50) \<noteq> 0 \<and>
   LimitSpeed_update s_jump =
     (Inr (), s_jump\<lparr>motors := [ex_m2\<lparr>present_position := 170, compliant := True\<rparr>],
                     trace := [Print ''overspeeding motors: '' [(''m2'', radians 1408)],
                               SetCompliant ''m2'' True]\<rparr>)"
  by (simp add: s_moved_def s_jump_def s_fresh_def ex_m2_def LimitSpeed_setup_def LimitSpeed_update_def
      overspeeding_motors_def motor_speed_def resolution_def SPEED_LIMIT_def radians_def
      release_all_def set_compliant_def)

subsection \<open>A motor of an unknown model\<close>

text \<open>
  Claim C7, amended. When the loop reaches a motor whose model is none of MX-28, MX-64
  and AX-12, the evaluation fails with a \<open>ValueError\<close> whose message is the fixed text
  \<open>unknown motor model.\<close>, whatever the name and the model of the motor.
\<close>

theorem unknown_model_error:
  assumes "motors s = pre @ m # post"
    and "\<forall>a\<in>set pre. \<not> isl (motor_speed (freq s) (prev_position s) a)"
    and "model m \<notin> {''MX-28'', ''MX-64'', ''AX-12''}"
  shows "motor_speed (freq s) (prev_position s) m = Inl (ValueError ''unknown motor model.'') \<and>
         fst (LimitSpeed_update s) = Inl (ValueError ''unknown motor model.'')"
  using speed_loop_reaches_unknown [OF assms(2,3), of post "[]"] assms(1)
  by (simp add: motor_speed_unknown [OF assms(3)] LimitSpeed_update_raise overspeeding_motors_def)

theorem unknown_model_error_witness:
  "motors s_late = [ex_m1] @ ex_m3 # [] \<and>
   \<not> isl (motor_speed (freq s_late) (prev_position s_late) ex_m1) \<and>
   model ex_m3 \<notin> {''MX-28'', ''MX-64'', ''AX-12''} \<and>
   motor_speed (freq s_late) (prev_position s_late) ex_m3 = Inl (ValueError ''unknown motor model.'') \<and>
   fst (LimitSpeed_update s_late) = Inl (ValueError ''unknown motor model.'')"
proof -
  have h1: "motors s_late = [ex_m1] @ ex_m3 # []"
    by (simp add: s_late_def)
  have h2: "\<not> isl (motor_speed (freq s_late) (prev_position s_late) ex_m1)"
    by (simp add: s_late_def ex_m1_def motor_speed_def resolution_def)
  then have h2': "\<forall>a\<in>set [ex_m1]. \<not> isl (motor_speed (freq s_late) (prev_position s_late) a)"
    by simp
  have h3: "model ex_m3 \<notin> {''MX-28'', ''MX-64'', ''AX-12''}"
    by (simp add: ex_m3_def)
  show ?thesis
    using unknown_model_error [OF h1 h2' h3] h1 h2 h3 by simp
qed

text \<open>
  Claim C7 as stated fails: the motor \<open>m3\<close> of model \<open>XYZ-99\<close> and the motor \<open>m9\<close>
  of model \<open>RX-64\<close> raise the very same error, which names neither.
\<close>

theorem unknown_model_error_counterexample:
  "LimitSpeed_update s_m3 = (Inl (ValueError ''unknown motor model.''), s_m3) \<and>
   LimitSpeed_update s_m9 = (Inl (ValueError ''unknown motor model.''), s_m9) \<and>
   name ex_m3 = ''m3'' \<and> model ex_m3 = ''XYZ-99'' \<and>
   name ex_m9 = ''m9'' \<and> model ex_m9 = ''RX-64''"
  by (simp add: s_m3_def s_m9_def ex_m3_def ex_m9_def LimitSpeed_update_def
      overspeeding_motors_def motor_speed_def resolution_def)

text \<open>
  Claim C8, amended. When the loop reaches a motor whose model is unknown, \<open>update\<close>
  raises \<open>ValueError\<close> and the tick fails as a whole: the state is left as it was, so
  nothing is printed, no motor is released and no trip is recorded for any motor, and
  the outcome is the same whatever motors follow in the robot, which are not evaluated.
\<close>

theorem unknown_model_aborts_tick:
  assumes "motors s = pre @ m # post"
    and "\<forall>a\<in>set pre. \<not> isl (motor_speed (freq s) (prev_position s) a)"
    and "model m \<notin> {''MX-28'', ''MX-64'', ''AX-12''}"
  shows "LimitSpeed_update s = (Inl (ValueError ''unknown motor model.''), s) \<and>
         LimitSpeed_update (s\<lparr>motors := pre @ m # post'\<rparr>) =
           (Inl (ValueError ''unknown motor model.''), s\<lparr>motors := pre @ m # post'\<rparr>)"
  using speed_loop_reaches_unknown [OF assms(2,3), of post "[]"]
    speed_loop_reaches_unknown [OF assms(2,3), of post' "[]"] assms(1)
  by (simp add: LimitSpeed_update_raise overspeeding_motors_def)

theorem unknown_model_aborts_tick_witness:
  "motors s_abort = [ex_m4] @ ex_m3 # [ex_m1] \<and>
   \<not> isl (motor_speed (freq s_abort) (prev_position s_abort) ex_m4) \<and>
   model ex_m3 \<notin> {''MX-28'', ''MX-64'', ''AX-12''} \<and>
   LimitSpeed_update s_abort = (Inl (ValueError ''unknown motor model.''), s_abort) \<and>
   LimitSpeed_update (s_abort\<lparr>motors := [ex_m4] @ ex_m3 # []\<rparr>) =
     (Inl (ValueError ''unknown motor model.''), s_abort\<lparr>motors := [ex_m4] @ ex_m3 # []\<rparr>)"
proof -
  have h1: "motors s_abort = [ex_m4] @ ex_m3 # [ex_m1]"
    by (simp add: s_abort_def)
  have h2: "\<not> isl (motor_speed (freq s_abort) (prev_position s_abort) ex_m4)"
    by (simp add: s_abort_def ex_m4_def motor_speed_def resolution_def)
  then have h2': "\<forall>a\<in>set [ex_m4]. \<not> isl (motor_speed (freq s_abort) (prev_position s_abort) a)"
    by simp
  have h3: "model ex_m3 \<notin> {''MX-28'', ''MX-64'', ''AX-12''}"
    by (simp add: ex_m3_def)
  show ?thesis
    using unknown_model_aborts_tick [OF h1 h2' h3, of "[]"] h1 h2 h3 by simp
qed

text \<open>
  Claim C8 as stated fails: with \<open>m3\<close> in the robot the overspeeding motor \<open>m1\<close> is
  not evaluated and the update raises, while the same robot without \<open>m3\<close> is released
  because of \<open>m1\<close>.
\<close>

theorem unknown_model_other_motors_counterexample:
  "LimitSpeed_update s_abort = (Inl (ValueError ''unknown motor model.''), s_abort) \<and>
   LimitSpeed_update (s_abort\<lparr>motors := [ex_m4, ex_m1]\<rparr>) =
     (Inr (), s_abort\<lparr>motors := [ex_m4, ex_m1\<lparr>compliant := True\<rparr>],
                      trace := [Print ''overspeeding motors: '' [(''m1'', radians 1496)],
                                SetCompliant ''m4'' True, SetCompliant ''m1'' True]\<rparr>)"
  by (simp add: s_abort_def ex_m1_def ex_m3_def ex_m4_def LimitSpeed_update_def
      overspeeding_motors_def motor_speed_def resolution_def SPEED_LIMIT_def radians_def
      release_all_def set_compliant_def)

text \<open>
  Claim C9. If some motor of the robot has an unknown model, \<open>update\<close> raises and
  leaves the state as it was: no motor is released, also when a motor met earlier in the
  same tick was over \<open>SPEED_LIMIT\<close>.
\<close>

theorem unknown_model_blocks_release:
  assumes "m \<in> set (motors s)" and "model m \<notin> {''MX-28'', ''MX-64'', ''AX-12''}"
  shows "\<exists>e. LimitSpeed_update s = (Inl e, s)"
  using speed_loop_raises [OF assms, of "freq s" "prev_position s" "[]"]
  by (auto simp add: overspeeding_motors_def LimitSpeed_update_raise)

theorem unknown_model_blocks_release_witness:
  "ex_m3 \<in> set (motors s_late) \<and> model ex_m3 \<notin> {''MX-28'', ''MX-64'', ''AX-12''} \<and>
   motor_speed (freq s_late) (prev_position s_late) ex_m1 = Inr (radians 1496) \<and>
   \<bar>radians 1496\<bar> > SPEED_LIMIT \<and>
   (\<exists>e. LimitSpeed_update s_late = (Inl e, s_late))"
proof -
  have h1: "ex_m3 \<in> set (motors s_late)"
    by (simp add: s_late_def)
  have h2: "model ex_m3 \<notin> {''MX-28'', ''MX-64'', ''AX-12''}"
    by (simp add: ex_m3_def)
  have fast: "motor_speed (freq s_late) (prev_position s_late) ex_m1 = Inr (radians 1496)"
    "\<bar>radians 1496\<bar> > SPEED_LIMIT"
    by (simp_all add: s_late_def ex_m1_def motor_speed_def resolution_def radians_def SPEED_LIMIT_def)
  show ?thesis
    using unknown_model_blocks_release [OF h1 h2] h1 h2 fast by simp
qed

end
